theory Spec2Isabelle
  imports Main
begin

section \<open>The logging engine behind the wrapper\<close>

text \<open>
  The wrapper delegates to Uber's zap. zap is not part of the repository, so the few
  operations the wrapper calls are modelled here, from the specification's description of
  the engine: a leveled emitter of structured records to named sinks, with persistent
  fields, a flush, and an initialisation that fails on a sink that cannot be opened.
\<close>

text \<open>\<open>zapcore.Level\<close> is an \<open>int8\<close>; levels are only compared, never computed with.\<close>

type_synonym Level = int

definition DebugLevel :: Level where
  \<comment> \<open>Modelled from the spec: zapcore's level constants are declared outside the
      repository; the glossary orders them debug < info < error.\<close>
  "DebugLevel = - 1"

definition InfoLevel :: Level where
  \<comment> \<open>Modelled from the spec: see \<open>DebugLevel\<close>.\<close>
  "InfoLevel = 0"

definition ErrorLevel :: Level where
  \<comment> \<open>Modelled from the spec: see \<open>DebugLevel\<close>.\<close>
  "ErrorLevel = 2"

text \<open>
  A value of Go's \<open>interface{}\<close>: the wrapper itself only ever creates strings (the key
  \<open>"trace_id"\<close> and the trace id); every other value a caller passes is a \<open>Val\<close>.
\<close>

datatype 'v iface = Str string | Val 'v

datatype TimeEncoder = EpochTimeEncoder | ISO8601TimeEncoder

text \<open>The fields of \<open>zap.Config\<close> that \<open>New\<close> reads or assigns.\<close>

record Config =
  cfgLevel :: Level
  EncodeTime :: TimeEncoder
  DisableStacktrace :: bool
  InitialFields :: "(string \<times> string) list"
  OutputPaths :: "string list"

definition NewProductionConfig :: Config where
  \<comment> \<open>Modelled from the spec: zap's production defaults, before \<open>New\<close> overrides them.\<close>
  "NewProductionConfig =
     \<lparr>cfgLevel = InfoLevel, EncodeTime = EpochTimeEncoder, DisableStacktrace = False,
      InitialFields = [], OutputPaths = [''stderr'']\<rparr>"

text \<open>
  An engine handle (\<open>*zap.Logger\<close>, and \<open>*zap.SugaredLogger\<close> over the same core): the
  configuration it was built from, whether caller locations are recorded, and the fields
  accumulated by \<open>With\<close>.
\<close>

record 'v ZapLogger =
  config :: Config
  addCaller :: bool
  zfields :: "'v iface list"

type_synonym 'v SugaredLogger = "'v ZapLogger"

definition Sugar :: "'v ZapLogger \<Rightarrow> 'v SugaredLogger" where
  \<comment> \<open>Modelled from the spec: the sugared API wraps the same core.\<close>
  "Sugar z = z"

text \<open>What reaches a sink: one record per emitted log call.\<close>

record 'v Entry =
  entryLevel :: Level
  entryMsg :: string
  entryInitial :: "(string \<times> string) list"
  entryCaller :: bool
  entryFields :: "'v iface list"

text \<open>The engine's effects on the sinks, in the order they happen.\<close>

datatype 'v sink_op = Write string "'v Entry" | Flush string

datatype error = OpenError "string list" | SyncError "string list"

text \<open>
  What the outside world decides: which sink paths can be opened, and which can be
  flushed.
\<close>

record Env =
  canOpen :: "string \<Rightarrow> bool"
  canSync :: "string \<Rightarrow> bool"

definition Build :: "Env \<Rightarrow> Config \<Rightarrow> bool \<Rightarrow> error + 'v ZapLogger" where
  \<comment> \<open>Modelled from the spec: \<open>config.Build(zap.WithCaller(caller))\<close>; the engine fails to
      initialise when a sink path is unwritable or malformed, and names the sinks that
      failed.\<close>
  "Build env cfg caller =
     (case filter (\<lambda>p. \<not> canOpen env p) (OutputPaths cfg) of
        [] \<Rightarrow> Inr \<lparr>config = cfg, addCaller = caller, zfields = []\<rparr>
      | b # bs \<Rightarrow> Inl (OpenError (b # bs)))"

definition NewProduction :: "Env \<Rightarrow> error + 'v ZapLogger" where
  \<comment> \<open>Modelled from the spec: \<open>zap.NewProduction()\<close> builds the production defaults.\<close>
  "NewProduction env = Build env NewProductionConfig True"

definition logw ::
  "Level \<Rightarrow> 'v SugaredLogger \<Rightarrow> string \<Rightarrow> 'v iface list \<Rightarrow> 'v sink_op list \<Rightarrow> 'v sink_op list"
where
  \<comment> \<open>Modelled from the spec: a record is written to every configured sink when its
      severity is at or above the engine's minimum, and the call is a no-op otherwise; the
      record carries the persistent fields, then the fields of the call.\<close>
  "logw lvl z msg keyVals ops =
     (if cfgLevel (config z) \<le> lvl
      then ops @ map (\<lambda>p. Write p
             \<lparr>entryLevel = lvl, entryMsg = msg, entryInitial = InitialFields (config z),
              entryCaller = addCaller z, entryFields = zfields z @ keyVals\<rparr>)
             (OutputPaths (config z))
      else ops)"

definition Infow ::
  "'v SugaredLogger \<Rightarrow> string \<Rightarrow> 'v iface list \<Rightarrow> 'v sink_op list \<Rightarrow> 'v sink_op list"
where
  \<comment> \<open>Modelled from the spec: \<open>SugaredLogger.Infow\<close>.\<close>
  "Infow = logw InfoLevel"

definition Errorw ::
  "'v SugaredLogger \<Rightarrow> string \<Rightarrow> 'v iface list \<Rightarrow> 'v sink_op list \<Rightarrow> 'v sink_op list"
where
  \<comment> \<open>Modelled from the spec: \<open>SugaredLogger.Errorw\<close>.\<close>
  "Errorw = logw ErrorLevel"

definition Debugw ::
  "'v SugaredLogger \<Rightarrow> string \<Rightarrow> 'v iface list \<Rightarrow> 'v sink_op list \<Rightarrow> 'v sink_op list"
where
  \<comment> \<open>Modelled from the spec: \<open>SugaredLogger.Debugw\<close>.\<close>
  "Debugw = logw DebugLevel"

definition zapWith :: "'v SugaredLogger \<Rightarrow> 'v iface list \<Rightarrow> 'v SugaredLogger" where
  \<comment> \<open>Modelled from the spec: \<open>SugaredLogger.With\<close> returns a new handle whose persistent
      fields are the receiver's followed by the supplied ones.\<close>
  "zapWith z keyVals = z\<lparr>zfields := zfields z @ keyVals\<rparr>"

definition zapSync :: "Env \<Rightarrow> 'v SugaredLogger \<Rightarrow> 'v sink_op list \<Rightarrow> error option \<times> 'v sink_op list" where
  \<comment> \<open>Modelled from the spec: \<open>SugaredLogger.Sync\<close> flushes every sink of the engine and
      surfaces the sinks that could not be flushed.\<close>
  "zapSync env z ops =
     ((case filter (\<lambda>p. \<not> canSync env p) (OutputPaths (config z)) of
         [] \<Rightarrow> None
       | b # bs \<Rightarrow> Some (SyncError (b # bs))),
      ops @ map Flush (OutputPaths (config z)))"

section \<open>The wrapper with functional options\<close>

text \<open>
  \<open>GetTraceIDFn\<close> is a function from a context to a trace id; a field of that type can be
  \<open>nil\<close>, which the log methods test, so it is an option.
\<close>

type_synonym 'c GetTraceIDFn = "('c \<Rightarrow> string) option"

record ('v, 'c) Logger =
  zapLogger :: "'v SugaredLogger"
  getTraceIDFn :: "'c GetTraceIDFn"
  level :: Level
  outputPaths :: "string list"

text \<open>
  The program state: the \<open>Logger\<close> structs allocated so far (a \<open>*Logger\<close> is an index into
  this list; an index past its end stands for \<open>nil\<close>), and what the engine has done to
  the sinks.
\<close>

record ('l, 'v) State =
  loggers :: "'l list"
  sinkOps :: "'v sink_op list"

type_synonym ptr = nat

definition deref :: "('l, 'v) State \<Rightarrow> ptr \<Rightarrow> 'l option" where
  "deref s p = (if p < length (loggers s) then Some (loggers s ! p) else None)"

definition alloc :: "'l \<Rightarrow> ('l, 'v) State \<Rightarrow> ptr \<times> ('l, 'v) State" where
  "alloc l s = (length (loggers s), s\<lparr>loggers := loggers s @ [l]\<rparr>)"

text \<open>
  An \<open>Option\<close> is a closure over the \<open>*Logger\<close> under construction. The fields of
  \<open>Logger\<close> are unexported, so the closures that assign one come from the three
  constructors of the package; each is represented by its constructor and argument, and
  \<open>applyOption\<close> is the closure's body. A \<open>nil\<close> option, on which \<open>New\<close> would panic, is
  not represented.
\<close>

datatype 'c Option =
    WithTraceID "'c GetTraceIDFn"
  | WithLevel Level
  | WithOutputPaths "string list"

fun applyOption :: "'c Option \<Rightarrow> ('v, 'c) Logger \<Rightarrow> ('v, 'c) Logger" where
  "applyOption (WithTraceID fn) l = l\<lparr>getTraceIDFn := fn\<rparr>"
| "applyOption (WithLevel lvl) l = l\<lparr>level := lvl\<rparr>"
| "applyOption (WithOutputPaths paths) l = l\<lparr>outputPaths := paths\<rparr>"

fun applyOptions :: "'c Option list \<Rightarrow> ('v, 'c) Logger \<Rightarrow> ('v, 'c) Logger" where
  "applyOptions [] logger = logger"
| "applyOptions (opt # opts) logger = applyOptions opts (applyOption opt logger)"

text \<open>
  The pieces of \<open>New\<close>: the default trace-extraction function, the struct before the
  options run, and the configuration that is built from the struct after they have run.
\<close>

definition defaultTraceIDFn :: "'c \<Rightarrow> string" where
  "defaultTraceIDFn ctx = ''''"

definition defaultLogger :: "'v ZapLogger \<Rightarrow> ('v, 'c) Logger" where
  "defaultLogger l =
     \<lparr>zapLogger = Sugar l, getTraceIDFn = Some defaultTraceIDFn, level = InfoLevel,
      outputPaths = [''stdout'']\<rparr>"

definition newConfig :: "string \<Rightarrow> ('v, 'c) Logger \<Rightarrow> Config" where
  "newConfig service logger =
     NewProductionConfig
       \<lparr>cfgLevel := level logger, EncodeTime := ISO8601TimeEncoder, DisableStacktrace := True,
        InitialFields := [(''service'', service)], OutputPaths := outputPaths logger\<rparr>"

text \<open>
  \<open>New\<close> returns Go's pair \<open>(*Logger, error)\<close>. The struct is stored when it is returned:
  on the failure paths the source returns \<open>nil\<close> and nothing can reach the struct it had
  allocated.
\<close>

definition New ::
  "Env \<Rightarrow> string \<Rightarrow> 'c Option list \<Rightarrow> (('v, 'c) Logger, 'v) State
     \<Rightarrow> (ptr option \<times> error option) \<times> (('v, 'c) Logger, 'v) State"
where
  "New env service opts s =
     (case NewProduction env of
        Inl err \<Rightarrow> ((None, Some err), s)
      | Inr l \<Rightarrow>
          (let logger = applyOptions opts (defaultLogger l) in
           case Build env (newConfig service logger) True of
             Inl err \<Rightarrow> ((None, Some err), s)
           | Inr l' \<Rightarrow>
               (let (p, s') = alloc (logger\<lparr>zapLogger := Sugar l'\<rparr>) s
                in ((Some p, None), s'))))"

text \<open>
  The log methods return nothing; \<open>None\<close> is the panic of dereferencing a \<open>nil\<close>
  receiver.
\<close>

definition Info ::
  "ptr \<Rightarrow> 'c \<Rightarrow> string \<Rightarrow> 'v iface list \<Rightarrow> (('v, 'c) Logger, 'v) State
     \<Rightarrow> (('v, 'c) Logger, 'v) State option"
where
  "Info p ctx msg keyVals s =
     (case deref s p of
        None \<Rightarrow> None
      | Some l \<Rightarrow>
          (let keyVals' =
             (case getTraceIDFn l of
                None \<Rightarrow> keyVals
              | Some fn \<Rightarrow>
                  (let traceID = fn ctx in
                   if traceID \<noteq> '''' then keyVals @ [Str ''trace_id'', Str traceID]
                   else keyVals))
           in Some (s\<lparr>sinkOps := Infow (zapLogger l) msg keyVals' (sinkOps s)\<rparr>)))"

definition Error ::
  "ptr \<Rightarrow> 'c \<Rightarrow> string \<Rightarrow> 'v iface list \<Rightarrow> (('v, 'c) Logger, 'v) State
     \<Rightarrow> (('v, 'c) Logger, 'v) State option"
where
  "Error p ctx msg keyVals s =
     (case deref s p of
        None \<Rightarrow> None
      | Some l \<Rightarrow>
          (let keyVals' =
             (case getTraceIDFn l of
                None \<Rightarrow> keyVals
              | Some fn \<Rightarrow>
                  (let traceID = fn ctx in
                   if traceID \<noteq> '''' then keyVals @ [Str ''trace_id'', Str traceID]
                   else keyVals))
           in Some (s\<lparr>sinkOps := Errorw (zapLogger l) msg keyVals' (sinkOps s)\<rparr>)))"

definition Debug ::
  "ptr \<Rightarrow> 'c \<Rightarrow> string \<Rightarrow> 'v iface list \<Rightarrow> (('v, 'c) Logger, 'v) State
     \<Rightarrow> (('v, 'c) Logger, 'v) State option"
where
  "Debug p ctx msg keyVals s =
     (case deref s p of
        None \<Rightarrow> None
      | Some l \<Rightarrow>
          (let keyVals' =
             (case getTraceIDFn l of
                None \<Rightarrow> keyVals
              | Some fn \<Rightarrow>
                  (let traceID = fn ctx in
                   if traceID \<noteq> '''' then keyVals @ [Str ''trace_id'', Str traceID]
                   else keyVals))
           in Some (s\<lparr>sinkOps := Debugw (zapLogger l) msg keyVals' (sinkOps s)\<rparr>)))"

definition With ::
  "ptr \<Rightarrow> 'v iface list \<Rightarrow> (('v, 'c) Logger, 'v) State
     \<Rightarrow> (ptr \<times> (('v, 'c) Logger, 'v) State) option"
where
  "With p keyVals s =
     (case deref s p of
        None \<Rightarrow> None
      | Some l \<Rightarrow>
          (let newSugared = zapWith (zapLogger l) keyVals in
           Some (alloc \<lparr>zapLogger = newSugared, getTraceIDFn = getTraceIDFn l,
                        level = level l, outputPaths = outputPaths l\<rparr> s)))"

definition Sync ::
  "Env \<Rightarrow> ptr \<Rightarrow> (('v, 'c) Logger, 'v) State
     \<Rightarrow> (error option \<times> (('v, 'c) Logger, 'v) State) option"
where
  "Sync env p s =
     (case deref s p of
        None \<Rightarrow> None
      | Some l \<Rightarrow>
          (let (err, ops) = zapSync env (zapLogger l) (sinkOps s)
           in Some (err, s\<lparr>sinkOps := ops\<rparr>)))"

text \<open>
  The three log methods share one prefix: the fields they add to those of the call. It is
  named here so that the theorems can speak of it.
\<close>

definition traceFields :: "('v, 'c) Logger \<Rightarrow> 'c \<Rightarrow> 'v iface list" where
  "traceFields l ctx =
     (case getTraceIDFn l of
        None \<Rightarrow> []
      | Some fn \<Rightarrow> (if fn ctx \<noteq> '''' then [Str ''trace_id'', Str (fn ctx)] else []))"

section \<open>The wrapper without options\<close>

text \<open>
  \<open>logger.go\<close> is the earlier version of the wrapper: the struct has the engine handle and
  the trace-extraction function only, and \<open>New\<close> takes the function, the level and the
  output paths as arguments. The variadic \<open>outputPaths\<close> is \<open>None\<close> for the \<open>nil\<close> slice of
  a call without path arguments, which \<open>New\<close> tests for.
\<close>

record ('v, 'c) Logger_v1 =
  zapLogger_v1 :: "'v SugaredLogger"
  getTraceID :: "'c GetTraceIDFn"

definition New_v1 ::
  "Env \<Rightarrow> string \<Rightarrow> 'c GetTraceIDFn \<Rightarrow> Level \<Rightarrow> string list option
     \<Rightarrow> (('v, 'c) Logger_v1, 'v) State
     \<Rightarrow> (ptr option \<times> error option) \<times> (('v, 'c) Logger_v1, 'v) State"
where
  "New_v1 env service fn lvl paths s =
     (let cfg = NewProductionConfig
            \<lparr>cfgLevel := lvl, EncodeTime := ISO8601TimeEncoder, DisableStacktrace := True,
             InitialFields := [(''service'', service)]\<rparr>;
          cfg = cfg\<lparr>OutputPaths := [''stdout'']\<rparr>;
          cfg = (case paths of None \<Rightarrow> cfg | Some ps \<Rightarrow> cfg\<lparr>OutputPaths := ps\<rparr>)
      in case Build env cfg True of
           Inl err \<Rightarrow> ((None, Some err), s)
         | Inr z \<Rightarrow>
             (let (p, s') = alloc \<lparr>zapLogger_v1 = Sugar z, getTraceID = fn\<rparr> s
              in ((Some p, None), s')))"

definition Info_v1 ::
  "ptr \<Rightarrow> 'c \<Rightarrow> string \<Rightarrow> 'v iface list \<Rightarrow> (('v, 'c) Logger_v1, 'v) State
     \<Rightarrow> (('v, 'c) Logger_v1, 'v) State option"
where
  "Info_v1 p ctx msg keyVals s =
     (case deref s p of
        None \<Rightarrow> None
      | Some l \<Rightarrow>
          (let keyVals' =
             (case getTraceID l of
                None \<Rightarrow> keyVals
              | Some fn \<Rightarrow>
                  (let traceID = fn ctx in
                   if traceID \<noteq> '''' then keyVals @ [Str ''trace_id'', Str traceID]
                   else keyVals))
           in Some (s\<lparr>sinkOps := Infow (zapLogger_v1 l) msg keyVals' (sinkOps s)\<rparr>)))"

definition Error_v1 ::
  "ptr \<Rightarrow> 'c \<Rightarrow> string \<Rightarrow> 'v iface list \<Rightarrow> (('v, 'c) Logger_v1, 'v) State
     \<Rightarrow> (('v, 'c) Logger_v1, 'v) State option"
where
  "Error_v1 p ctx msg keyVals s =
     (case deref s p of
        None \<Rightarrow> None
      | Some l \<Rightarrow>
          (let keyVals' =
             (case getTraceID l of
                None \<Rightarrow> keyVals
              | Some fn \<Rightarrow>
                  (let traceID = fn ctx in
                   if traceID \<noteq> '''' then keyVals @ [Str ''trace_id'', Str traceID]
                   else keyVals))
           in Some (s\<lparr>sinkOps := Errorw (zapLogger_v1 l) msg keyVals' (sinkOps s)\<rparr>)))"

definition Debug_v1 ::
  "ptr \<Rightarrow> 'c \<Rightarrow> string \<Rightarrow> 'v iface list \<Rightarrow> (('v, 'c) Logger_v1, 'v) State
     \<Rightarrow> (('v, 'c) Logger_v1, 'v) State option"
where
  "Debug_v1 p ctx msg keyVals s =
     (case deref s p of
        None \<Rightarrow> None
      | Some l \<Rightarrow>
          (let keyVals' =
             (case getTraceID l of
                None \<Rightarrow> keyVals
              | Some fn \<Rightarrow>
                  (let traceID = fn ctx in
                   if traceID \<noteq> '''' then keyVals @ [Str ''trace_id'', Str traceID]
                   else keyVals))
           in Some (s\<lparr>sinkOps := Debugw (zapLogger_v1 l) msg keyVals' (sinkOps s)\<rparr>)))"

definition With_v1 ::
  "ptr \<Rightarrow> 'v iface list \<Rightarrow> (('v, 'c) Logger_v1, 'v) State
     \<Rightarrow> (ptr \<times> (('v, 'c) Logger_v1, 'v) State) option"
where
  "With_v1 p keyVals s =
     (case deref s p of
        None \<Rightarrow> None
      | Some l \<Rightarrow>
          (let newSugared = zapWith (zapLogger_v1 l) keyVals in
           Some (alloc \<lparr>zapLogger_v1 = newSugared, getTraceID = getTraceID l\<rparr> s)))"

definition Sync_v1 ::
  "Env \<Rightarrow> ptr \<Rightarrow> (('v, 'c) Logger_v1, 'v) State
     \<Rightarrow> (error option \<times> (('v, 'c) Logger_v1, 'v) State) option"
where
  "Sync_v1 env p s =
     (case deref s p of
        None \<Rightarrow> None
      | Some l \<Rightarrow>
          (let (err, ops) = zapSync env (zapLogger_v1 l) (sinkOps s)
           in Some (err, s\<lparr>sinkOps := ops\<rparr>)))"

definition traceFields_v1 :: "('v, 'c) Logger_v1 \<Rightarrow> 'c \<Rightarrow> 'v iface list" where
  "traceFields_v1 l ctx =
     (case getTraceID l of
        None \<Rightarrow> []
      | Some fn \<Rightarrow> (if fn ctx \<noteq> '''' then [Str ''trace_id'', Str (fn ctx)] else []))"

text \<open>The configuration \<open>New\<close> ends with, in closed form.\<close>

definition newConfig_v1 :: "string \<Rightarrow> Level \<Rightarrow> string list option \<Rightarrow> Config" where
  "newConfig_v1 service lvl paths =
     \<lparr>cfgLevel = lvl, EncodeTime = ISO8601TimeEncoder, DisableStacktrace = True,
      InitialFields = [(''service'', service)],
      OutputPaths = (case paths of None \<Rightarrow> [''stdout''] | Some ps \<Rightarrow> ps)\<rparr>"

section \<open>The variadic argument in memory\<close>

text \<open>
  The log methods above work on the sequence of values of \<open>keyVals\<close>. In Go \<open>keyVals\<close> is a
  slice: a window of \<open>len\<close> elements, with room for \<open>cap\<close>, onto a backing array. A call
  with listed arguments gets a window of its own; a call \<open>l.Info(ctx, msg, kv...)\<close> gets the
  caller's window. \<open>append(keyVals, a, b)\<close> writes \<open>a\<close> and \<open>b\<close> behind the window when the
  capacity allows it and copies the window to a new array otherwise; the capacity of the
  copy is the runtime's choice and plays no part below, so it is the least one.
\<close>

record slice =
  arr :: nat
  start :: nat
  len :: nat
  cap :: nat

definition elems :: "'a list list \<Rightarrow> slice \<Rightarrow> 'a list" where
  "elems mem sl = take (len sl) (drop (start sl) (mem ! arr sl))"

definition validSlice :: "'a list list \<Rightarrow> slice \<Rightarrow> bool" where
  "validSlice mem sl \<longleftrightarrow>
     len sl \<le> cap sl
     \<and> (cap sl = 0 \<or> arr sl < length mem \<and> start sl + cap sl \<le> length (mem ! arr sl))"

definition append2 :: "slice \<Rightarrow> 'a \<Rightarrow> 'a \<Rightarrow> 'a list list \<Rightarrow> slice \<times> 'a list list" where
  "append2 sl a b mem =
     (if len sl + 2 \<le> cap sl
      then (sl\<lparr>len := len sl + 2\<rparr>,
            mem[arr sl := (mem ! arr sl)[start sl + len sl := a, start sl + len sl + 1 := b]])
      else (\<lparr>arr = length mem, start = 0, len = len sl + 2, cap = len sl + 2\<rparr>,
            mem @ [elems mem sl @ [a, b]]))"

text \<open>
  The prefix the log methods share, on a window: the test for \<open>nil\<close>, the call of the
  trace-extraction function, and the \<open>append\<close>.
\<close>

definition appendTraceID ::
  "'c GetTraceIDFn \<Rightarrow> 'c \<Rightarrow> slice \<Rightarrow> 'v iface list list \<Rightarrow> slice \<times> 'v iface list list"
where
  "appendTraceID getTraceIDFn' ctx keyVals mem =
     (case getTraceIDFn' of
        None \<Rightarrow> (keyVals, mem)
      | Some fn \<Rightarrow>
          (let traceID = fn ctx in
           if traceID \<noteq> '''' then append2 keyVals (Str ''trace_id'') (Str traceID) mem
           else (keyVals, mem)))"


text \<open>
  The log methods on a spread argument: the state is the program state together with the
  backing arrays, \<open>keyVals\<close> is the caller's window, and the engine is handed the elements
  of the window that \<open>append\<close> returned.
\<close>

definition Info_mem ::
  "ptr \<Rightarrow> 'c \<Rightarrow> string \<Rightarrow> slice \<Rightarrow> (('v, 'c) Logger, 'v) State \<Rightarrow> 'v iface list list
     \<Rightarrow> ((('v, 'c) Logger, 'v) State \<times> 'v iface list list) option"
where
  "Info_mem p ctx msg keyVals s mem =
     (case deref s p of
        None \<Rightarrow> None
      | Some l \<Rightarrow>
          (let (keyVals', mem') =
             (case getTraceIDFn l of
                None \<Rightarrow> (keyVals, mem)
              | Some fn \<Rightarrow>
                  (let traceID = fn ctx in
                   if traceID \<noteq> ''''
                   then append2 keyVals (Str ''trace_id'') (Str traceID) mem
                   else (keyVals, mem)))
           in Some (s\<lparr>sinkOps := Infow (zapLogger l) msg (elems mem' keyVals') (sinkOps s)\<rparr>,
                    mem')))"

definition Error_mem ::
  "ptr \<Rightarrow> 'c \<Rightarrow> string \<Rightarrow> slice \<Rightarrow> (('v, 'c) Logger, 'v) State \<Rightarrow> 'v iface list list
     \<Rightarrow> ((('v, 'c) Logger, 'v) State \<times> 'v iface list list) option"
where
  "Error_mem p ctx msg keyVals s mem =
     (case deref s p of
        None \<Rightarrow> None
      | Some l \<Rightarrow>
          (let (keyVals', mem') =
             (case getTraceIDFn l of
                None \<Rightarrow> (keyVals, mem)
              | Some fn \<Rightarrow>
                  (let traceID = fn ctx in
                   if traceID \<noteq> ''''
                   then append2 keyVals (Str ''trace_id'') (Str traceID) mem
                   else (keyVals, mem)))
           in Some (s\<lparr>sinkOps := Errorw (zapLogger l) msg (elems mem' keyVals') (sinkOps s)\<rparr>,
                    mem')))"

definition Debug_mem ::
  "ptr \<Rightarrow> 'c \<Rightarrow> string \<Rightarrow> slice \<Rightarrow> (('v, 'c) Logger, 'v) State \<Rightarrow> 'v iface list list
     \<Rightarrow> ((('v, 'c) Logger, 'v) State \<times> 'v iface list list) option"
where
  "Debug_mem p ctx msg keyVals s mem =
     (case deref s p of
        None \<Rightarrow> None
      | Some l \<Rightarrow>
          (let (keyVals', mem') =
             (case getTraceIDFn l of
                None \<Rightarrow> (keyVals, mem)
              | Some fn \<Rightarrow>
                  (let traceID = fn ctx in
                   if traceID \<noteq> ''''
                   then append2 keyVals (Str ''trace_id'') (Str traceID) mem
                   else (keyVals, mem)))
           in Some (s\<lparr>sinkOps := Debugw (zapLogger l) msg (elems mem' keyVals') (sinkOps s)\<rparr>,
                    mem')))"

text \<open>
  The backing arrays after a log call, said directly: untouched when no trace id is added;
  with the two values written behind the caller's window when the window has two spare
  slots; with a new array holding the copy otherwise.
\<close>

definition memoryAfter ::
  "('v, 'c) Logger \<Rightarrow> 'c \<Rightarrow> slice \<Rightarrow> 'v iface list list \<Rightarrow> 'v iface list list"
where
  "memoryAfter l ctx keyVals mem =
     (if traceFields l ctx = [] then mem
      else if len keyVals + 2 \<le> cap keyVals
      then mem[arr keyVals := (mem ! arr keyVals)
                 [start keyVals + len keyVals := traceFields l ctx ! 0,
                  start keyVals + len keyVals + 1 := traceFields l ctx ! 1]]
      else mem @ [elems mem keyVals @ traceFields l ctx])"

definition spareMemory :: "nat iface list list" where
  "spareMemory = [[Str ''k'', Val 1, Val 2, Val 3]]"

definition spareWindow :: slice where
  "spareWindow = \<lparr>arr = 0, start = 0, len = 2, cap = 4\<rparr>"

section \<open>Option resolution, as the specification words it\<close>

text \<open>
  The specification's reading of option resolution: of the options that set a given
  setting, the last one decides; when none does, the default stands.
\<close>

fun setsTraceID :: "'c Option \<Rightarrow> 'c GetTraceIDFn option" where
  "setsTraceID (WithTraceID fn) = Some fn"
| "setsTraceID (WithLevel lvl) = None"
| "setsTraceID (WithOutputPaths paths) = None"

fun setsLevel :: "'c Option \<Rightarrow> Level option" where
  "setsLevel (WithTraceID fn) = None"
| "setsLevel (WithLevel lvl) = Some lvl"
| "setsLevel (WithOutputPaths paths) = None"

fun setsOutputPaths :: "'c Option \<Rightarrow> string list option" where
  "setsOutputPaths (WithTraceID fn) = None"
| "setsOutputPaths (WithLevel lvl) = None"
| "setsOutputPaths (WithOutputPaths paths) = Some paths"

definition lastWriteWins :: "('o \<Rightarrow> 'a option) \<Rightarrow> 'a \<Rightarrow> 'o list \<Rightarrow> 'a" where
  "lastWriteWins sets dflt opts =
     (case List.map_filter sets opts of [] \<Rightarrow> dflt | v # vs \<Rightarrow> last (v # vs))"

section \<open>Reachable states\<close>

text \<open>
  The states a program can reach with the wrapper's operations, from the state in which no
  facade exists and nothing has been written.
\<close>

inductive reachable :: "Env \<Rightarrow> (('v, 'c) Logger, 'v) State \<Rightarrow> bool" for env :: Env where
  reach_init: "reachable env \<lparr>loggers = [], sinkOps = []\<rparr>"
| reach_New: "reachable env s \<Longrightarrow> reachable env (snd (New env service opts s))"
| reach_With: "reachable env s \<Longrightarrow> With p keyVals s = Some (q, s') \<Longrightarrow> reachable env s'"
| reach_Info: "reachable env s \<Longrightarrow> Info p ctx msg keyVals s = Some s' \<Longrightarrow> reachable env s'"
| reach_Error: "reachable env s \<Longrightarrow> Error p ctx msg keyVals s = Some s' \<Longrightarrow> reachable env s'"
| reach_Debug: "reachable env s \<Longrightarrow> Debug p ctx msg keyVals s = Some s' \<Longrightarrow> reachable env s'"
| reach_Sync: "reachable env s \<Longrightarrow> Sync env p s = Some (err, s') \<Longrightarrow> reachable env s'"

text \<open>
  A facade is consistent when its engine was configured with the level and the output
  paths the facade itself records.
\<close>

definition consistent :: "('v, 'c) Logger \<Rightarrow> bool" where
  "consistent l \<longleftrightarrow>
     cfgLevel (config (zapLogger l)) = level l
     \<and> OutputPaths (config (zapLogger l)) = outputPaths l
     \<and> addCaller (zapLogger l)"

text \<open>The record a facade's log call hands to each sink.\<close>

definition emitted :: "('v, 'c) Logger \<Rightarrow> Level \<Rightarrow> string \<Rightarrow> 'v iface list \<Rightarrow> 'v Entry" where
  "emitted l lvl msg keyVals =
     \<lparr>entryLevel = lvl, entryMsg = msg, entryInitial = InitialFields (config (zapLogger l)),
      entryCaller = addCaller (zapLogger l), entryFields = zfields (zapLogger l) @ keyVals\<rparr>"

section \<open>Concrete inputs\<close>

text \<open>
  A world in which standard output, standard error and \<open>mem://buf\<close> can be opened and only
  \<open>mem://buf\<close> can be flushed. \<open>exampleState\<close> is what \<open>New\<close> reaches from the empty state with
  the options of the specification's scenario (a trace function returning \<open>"abc123"\<close>,
  debug level, sink \<open>mem://buf\<close>), \<open>plainState\<close> what it reaches with no options, and
  \<open>errorState\<close> what it reaches with the error level alone.
\<close>

definition exampleEnv :: Env where
  "exampleEnv =
     \<lparr>canOpen = (\<lambda>p. p \<in> set [''stdout'', ''stderr'', ''mem://buf'']),
      canSync = (\<lambda>p. p = ''mem://buf'')\<rparr>"

definition emptyState :: "((nat, unit) Logger, nat) State" where
  "emptyState = \<lparr>loggers = [], sinkOps = []\<rparr>"

definition exampleOptions :: "unit Option list" where
  "exampleOptions =
     [WithTraceID (Some (\<lambda>ctx. ''abc123'')), WithLevel DebugLevel,
      WithOutputPaths [''mem://buf'']]"

definition exampleLogger :: "(nat, unit) Logger" where
  "exampleLogger =
     \<lparr>zapLogger =
        \<lparr>config = \<lparr>cfgLevel = DebugLevel, EncodeTime = ISO8601TimeEncoder,
                    DisableStacktrace = True, InitialFields = [(''service'', ''svc'')],
                    OutputPaths = [''mem://buf'']\<rparr>,
         addCaller = True, zfields = []\<rparr>,
      getTraceIDFn = Some (\<lambda>ctx. ''abc123''), level = DebugLevel,
      outputPaths = [''mem://buf'']\<rparr>"

definition exampleState :: "((nat, unit) Logger, nat) State" where
  "exampleState = \<lparr>loggers = [exampleLogger], sinkOps = []\<rparr>"

definition plainLogger :: "(nat, unit) Logger" where
  "plainLogger =
     \<lparr>zapLogger =
        \<lparr>config = \<lparr>cfgLevel = InfoLevel, EncodeTime = ISO8601TimeEncoder,
                    DisableStacktrace = True, InitialFields = [(''service'', ''svc'')],
                    OutputPaths = [''stdout'']\<rparr>,
         addCaller = True, zfields = []\<rparr>,
      getTraceIDFn = Some defaultTraceIDFn, level = InfoLevel,
      outputPaths = [''stdout'']\<rparr>"

definition plainState :: "((nat, unit) Logger, nat) State" where
  "plainState = \<lparr>loggers = [plainLogger], sinkOps = []\<rparr>"

definition errorLogger :: "(nat, unit) Logger" where
  "errorLogger =
     \<lparr>zapLogger =
        \<lparr>config = \<lparr>cfgLevel = ErrorLevel, EncodeTime = ISO8601TimeEncoder,
                    DisableStacktrace = True, InitialFields = [(''service'', ''svc'')],
                    OutputPaths = [''stdout'']\<rparr>,
         addCaller = True, zfields = []\<rparr>,
      getTraceIDFn = Some defaultTraceIDFn, level = ErrorLevel,
      outputPaths = [''stdout'']\<rparr>"

definition errorState :: "((nat, unit) Logger, nat) State" where
  "errorState = \<lparr>loggers = [errorLogger], sinkOps = []\<rparr>"


section \<open>Facts about the store\<close>

lemma deref_alloc_old: "deref s p = Some l \<Longrightarrow> deref (snd (alloc x s)) p = Some l"
  by (auto simp: deref_def alloc_def nth_append split: if_splits)

lemma deref_alloc_new: "deref (snd (alloc x s)) (fst (alloc x s)) = Some x"
  by (simp add: deref_def alloc_def)

lemma alloc_fresh: "deref s (fst (alloc x s)) = None"
  by (simp add: deref_def alloc_def)

lemma New_exampleState:
  "New exampleEnv ''svc'' exampleOptions emptyState = ((Some 0, None), exampleState)"
  by (simp add: New_def NewProduction_def Build_def NewProductionConfig_def exampleEnv_def
      exampleOptions_def defaultLogger_def newConfig_def Sugar_def alloc_def emptyState_def
      exampleState_def exampleLogger_def)

lemma New_plainState:
  "New exampleEnv ''svc'' [] emptyState = ((Some 0, None), plainState)"
  by (simp add: New_def NewProduction_def Build_def NewProductionConfig_def exampleEnv_def
      defaultLogger_def newConfig_def Sugar_def alloc_def emptyState_def plainState_def
      plainLogger_def)

lemma Build_config:
  "Build env cfg caller = Inr z \<Longrightarrow> config z = cfg \<and> addCaller z = caller \<and> zfields z = []"
  by (auto simp: Build_def split: list.splits)

section \<open>The log methods\<close>

lemma Info_eq:
  "deref s p = Some l \<Longrightarrow>
   Info p ctx msg keyVals s =
     Some (s\<lparr>sinkOps := Infow (zapLogger l) msg (keyVals @ traceFields l ctx) (sinkOps s)\<rparr>)"
  by (simp add: Info_def traceFields_def Let_def split: option.splits)

lemma Error_eq:
  "deref s p = Some l \<Longrightarrow>
   Error p ctx msg keyVals s =
     Some (s\<lparr>sinkOps := Errorw (zapLogger l) msg (keyVals @ traceFields l ctx) (sinkOps s)\<rparr>)"
  by (simp add: Error_def traceFields_def Let_def split: option.splits)

lemma Debug_eq:
  "deref s p = Some l \<Longrightarrow>
   Debug p ctx msg keyVals s =
     Some (s\<lparr>sinkOps := Debugw (zapLogger l) msg (keyVals @ traceFields l ctx) (sinkOps s)\<rparr>)"
  by (simp add: Debug_def traceFields_def Let_def split: option.splits)

lemma log_calls_nil_receiver:
  "deref s p = None \<Longrightarrow>
   Info p ctx msg keyVals s = None \<and> Error p ctx msg keyVals s = None
   \<and> Debug p ctx msg keyVals s = None"
  by (simp add: Info_def Error_def Debug_def)

text \<open>
  C1. A log call on a facade with a trace-extraction function \<open>fn\<close> applies \<open>fn\<close> to the
  context of the call. When the result is not the empty string, the engine receives the
  fields of the call followed by exactly the two values \<open>"trace_id"\<close> and the result; when
  it is the empty string, the engine receives the fields of the call as they are. This
  holds of \<open>Info\<close>, \<open>Error\<close> and \<open>Debug\<close>.
\<close>

theorem trace_id_appended:
  assumes "deref s p = Some l" and "getTraceIDFn l = Some fn"
  shows "Info p ctx msg keyVals s =
           Some (s\<lparr>sinkOps := Infow (zapLogger l) msg
                   (if fn ctx = '''' then keyVals else keyVals @ [Str ''trace_id'', Str (fn ctx)])
                   (sinkOps s)\<rparr>)
       \<and> Error p ctx msg keyVals s =
           Some (s\<lparr>sinkOps := Errorw (zapLogger l) msg
                   (if fn ctx = '''' then keyVals else keyVals @ [Str ''trace_id'', Str (fn ctx)])
                   (sinkOps s)\<rparr>)
       \<and> Debug p ctx msg keyVals s =
           Some (s\<lparr>sinkOps := Debugw (zapLogger l) msg
                   (if fn ctx = '''' then keyVals else keyVals @ [Str ''trace_id'', Str (fn ctx)])
                   (sinkOps s)\<rparr>)"
  using assms by (simp add: Info_eq Error_eq Debug_eq traceFields_def)

theorem trace_id_appended_witness:
  "Info 0 () ''hello'' [Str ''k'', Val 1] exampleState =
     Some (exampleState\<lparr>sinkOps :=
       [Write ''mem://buf''
          \<lparr>entryLevel = InfoLevel, entryMsg = ''hello'',
           entryInitial = [(''service'', ''svc'')], entryCaller = True,
           entryFields = [Str ''k'', Val 1, Str ''trace_id'', Str ''abc123'']\<rparr>]\<rparr>)"
proof -
  have d: "deref exampleState 0 = Some exampleLogger"
    by (simp add: deref_def exampleState_def)
  have g: "getTraceIDFn exampleLogger = Some (\<lambda>ctx. ''abc123'')"
    by (simp add: exampleLogger_def)
  from trace_id_appended [OF d g, of "()" "''hello''" "[Str ''k'', Val 1]"]
  show ?thesis
    by (simp add: Infow_def logw_def exampleLogger_def exampleState_def InfoLevel_def
        DebugLevel_def)
qed

lemma logw_enabled:
  "cfgLevel (config z) \<le> lvl \<Longrightarrow>
   logw lvl z msg keyVals ops =
     ops @ map (\<lambda>p. Write p
       \<lparr>entryLevel = lvl, entryMsg = msg, entryInitial = InitialFields (config z),
        entryCaller = addCaller z, entryFields = zfields z @ keyVals\<rparr>) (OutputPaths (config z))"
  by (simp add: logw_def)

lemma logw_disabled: "lvl < cfgLevel (config z) \<Longrightarrow> logw lvl z msg keyVals ops = ops"
  by (simp add: logw_def)

text \<open>
  C8. On every facade, \<open>Info\<close>, \<open>Error\<close> and \<open>Debug\<close> return normally whatever the
  context, the message and the fields are. The fields of the call reach the engine as they
  were given, in their order, in front of the trace id if there is one; nothing is checked
  about their number or their kinds, and a call with an odd number of fields hands the
  engine an odd number of fields.
\<close>

theorem log_calls_never_fail:
  assumes "deref s p = Some l"
  shows "Info p ctx msg keyVals s =
           Some (s\<lparr>sinkOps := Infow (zapLogger l) msg (keyVals @ traceFields l ctx) (sinkOps s)\<rparr>)
       \<and> Error p ctx msg keyVals s =
           Some (s\<lparr>sinkOps := Errorw (zapLogger l) msg (keyVals @ traceFields l ctx) (sinkOps s)\<rparr>)
       \<and> Debug p ctx msg keyVals s =
           Some (s\<lparr>sinkOps := Debugw (zapLogger l) msg (keyVals @ traceFields l ctx) (sinkOps s)\<rparr>)
       \<and> Info p ctx msg keyVals s \<noteq> None \<and> Error p ctx msg keyVals s \<noteq> None
       \<and> Debug p ctx msg keyVals s \<noteq> None
       \<and> take (length keyVals) (keyVals @ traceFields l ctx) = keyVals
       \<and> even (length (keyVals @ traceFields l ctx)) = even (length keyVals)"
  using assms by (simp add: Info_eq Error_eq Debug_eq traceFields_def split: option.splits)

theorem log_calls_never_fail_witness:
  "Error 0 () ''m'' [Str ''k''] exampleState =
     Some (exampleState\<lparr>sinkOps :=
       [Write ''mem://buf''
          \<lparr>entryLevel = ErrorLevel, entryMsg = ''m'',
           entryInitial = [(''service'', ''svc'')], entryCaller = True,
           entryFields = [Str ''k'', Str ''trace_id'', Str ''abc123'']\<rparr>]\<rparr>)"
proof -
  have d: "deref exampleState 0 = Some exampleLogger"
    by (simp add: deref_def exampleState_def)
  from log_calls_never_fail [OF d, of "()" "''m''" "[Str ''k'']"]
  show ?thesis
    by (simp add: Errorw_def logw_def exampleLogger_def exampleState_def traceFields_def
        ErrorLevel_def DebugLevel_def)
qed

text \<open>
  A log call changes nothing but the sinks: the list of \<open>Logger\<close> structs is the same
  after \<open>Info\<close>, \<open>Error\<close> and \<open>Debug\<close> as before, so the receiver still has its engine
  handle, its trace-extraction function, its level and its output paths.
\<close>

lemma log_calls_keep_loggers:
  assumes "deref s p = Some l"
  shows "(\<exists>s'. Info p ctx msg keyVals s = Some s' \<and> loggers s' = loggers s \<and> deref s' p = Some l)
       \<and> (\<exists>s'. Error p ctx msg keyVals s = Some s' \<and> loggers s' = loggers s \<and> deref s' p = Some l)
       \<and> (\<exists>s'. Debug p ctx msg keyVals s = Some s' \<and> loggers s' = loggers s \<and> deref s' p = Some l)"
  using assms by (auto simp: Info_eq Error_eq Debug_eq deref_def split: if_splits)

section \<open>Derived facades\<close>

text \<open>
  C2. \<open>With\<close> on a facade allocates a new \<open>Logger\<close>: its engine handle has the parent's
  persistent fields followed by the supplied ones, over the parent's engine
  configuration; its trace-extraction function, level and output paths are the parent's.
  The parent, and every other facade allocated before, is as it was, and nothing is
  written to the sinks.
\<close>

theorem With_child:
  assumes "deref s p = Some l"
  shows "\<exists>q s' c. With p keyVals s = Some (q, s') \<and> deref s' q = Some c
           \<and> zfields (zapLogger c) = zfields (zapLogger l) @ keyVals
           \<and> config (zapLogger c) = config (zapLogger l)
           \<and> getTraceIDFn c = getTraceIDFn l \<and> level c = level l
           \<and> outputPaths c = outputPaths l
           \<and> q \<noteq> p \<and> deref s q = None \<and> deref s' p = Some l
           \<and> take (length (loggers s)) (loggers s') = loggers s
           \<and> sinkOps s' = sinkOps s"
  using assms
  by (auto simp: With_def Let_def zapWith_def deref_def alloc_def nth_append split: if_splits)

theorem With_child_witness:
  "\<exists>s' c. With 0 [Str ''component'', Str ''x''] exampleState = Some (1, s')
      \<and> deref s' 1 = Some c
      \<and> zfields (zapLogger c) = [Str ''component'', Str ''x'']
      \<and> level c = DebugLevel \<and> outputPaths c = [''mem://buf'']
      \<and> deref s' 0 = Some exampleLogger"
proof -
  have d: "deref exampleState 0 = Some exampleLogger"
    by (simp add: deref_def exampleState_def)
  from With_child [OF d, of "[Str ''component'', Str ''x'']"]
  show ?thesis
    by (auto simp: With_def exampleState_def exampleLogger_def alloc_def deref_def)
qed

section \<open>Flush\<close>

lemma Sync_eq:
  "deref s p = Some l \<Longrightarrow>
   Sync env p s =
     Some (fst (zapSync env (zapLogger l) (sinkOps s)),
           s\<lparr>sinkOps := snd (zapSync env (zapLogger l) (sinkOps s))\<rparr>)"
  by (simp add: Sync_def split_beta)

text \<open>
  C9. \<open>Sync\<close> on a facade returns the error of the engine's flush as it is, \<open>None\<close> when
  the engine reports success, and leaves the state the engine's single flush leaves:
  every sink of the engine is flushed once.
\<close>

theorem Sync_returns_engine_error:
  assumes "deref s p = Some l"
  shows "\<exists>s'. Sync env p s = Some (fst (zapSync env (zapLogger l) (sinkOps s)), s')
           \<and> sinkOps s' = snd (zapSync env (zapLogger l) (sinkOps s))
           \<and> sinkOps s' = sinkOps s @ map Flush (OutputPaths (config (zapLogger l)))
           \<and> loggers s' = loggers s"
  using assms by (simp add: Sync_eq zapSync_def)

theorem Sync_returns_engine_error_witness:
  "zapSync exampleEnv (zapLogger plainLogger) [] = (Some (SyncError [''stdout'']), [Flush ''stdout''])
   \<and> (\<exists>s'. Sync exampleEnv 0 plainState = Some (Some (SyncError [''stdout'']), s')
         \<and> sinkOps s' = [Flush ''stdout''] \<and> loggers s' = [plainLogger])"
proof -
  have d: "deref plainState 0 = Some plainLogger"
    by (simp add: deref_def plainState_def)
  have z: "zapSync exampleEnv (zapLogger plainLogger) [] =
             (Some (SyncError [''stdout'']), [Flush ''stdout''])"
    by (simp add: zapSync_def exampleEnv_def plainLogger_def)
  from Sync_returns_engine_error [OF d, of exampleEnv] z
  show ?thesis by (auto simp: plainState_def)
qed

section \<open>Construction\<close>

lemma map_filter_app:
  "List.map_filter f (xs @ ys) = List.map_filter f xs @ List.map_filter f ys"
  by (simp add: map_filter_def)

lemma lastWriteWins_alt:
  "lastWriteWins sets dflt opts =
     (if List.map_filter sets opts = [] then dflt else last (List.map_filter sets opts))"
  by (simp add: lastWriteWins_def split: list.splits)

lemma lastWriteWins_Nil: "lastWriteWins sets dflt [] = dflt"
  by (simp add: lastWriteWins_def)

lemma lastWriteWins_Cons:
  "lastWriteWins sets dflt (opt # opts) =
     lastWriteWins sets (case sets opt of None \<Rightarrow> dflt | Some v \<Rightarrow> v) opts"
  by (simp add: lastWriteWins_def split: option.splits list.splits)

lemma lastWriteWins_after:
  "list_all (\<lambda>opt. sets opt = None) after \<Longrightarrow> sets opt = Some v \<Longrightarrow>
   lastWriteWins sets dflt (before @ opt # after) = v"
proof -
  assume a: "list_all (\<lambda>opt. sets opt = None) after" and b: "sets opt = Some v"
  from a have "List.map_filter sets after = []"
    by (induction after) simp_all
  with b show ?thesis
    by (simp add: lastWriteWins_alt map_filter_app)
qed

lemma applyOptions_eq:
  "applyOptions opts l =
     l\<lparr>getTraceIDFn := lastWriteWins setsTraceID (getTraceIDFn l) opts,
       level := lastWriteWins setsLevel (level l) opts,
       outputPaths := lastWriteWins setsOutputPaths (outputPaths l) opts\<rparr>"
proof (induction opts arbitrary: l)
  case Nil
  show ?case by (simp add: lastWriteWins_Nil)
next
  case (Cons opt opts)
  show ?case by (cases opt) (simp_all add: Cons.IH lastWriteWins_Cons)
qed

lemma New_eq:
  "New env service opts s =
     (case NewProduction env of
        Inl err \<Rightarrow> ((None, Some err), s)
      | Inr z \<Rightarrow>
          (case Build env (newConfig service (applyOptions opts (defaultLogger z))) True of
             Inl err \<Rightarrow> ((None, Some err), s)
           | Inr z' \<Rightarrow>
               ((Some (length (loggers s)), None),
                s\<lparr>loggers := loggers s @ [(applyOptions opts (defaultLogger z))\<lparr>zapLogger := z'\<rparr>]\<rparr>)))"
  by (simp add: New_def Let_def alloc_def Sugar_def split: sum.splits)

lemma New_SomeD:
  assumes "New env service opts s = ((Some p, None), s')"
  shows "\<exists>z z'. NewProduction env = Inr z
          \<and> Build env (newConfig service (applyOptions opts (defaultLogger z))) True = Inr z'
          \<and> p = length (loggers s)
          \<and> s' = s\<lparr>loggers := loggers s @ [(applyOptions opts (defaultLogger z))\<lparr>zapLogger := z'\<rparr>]\<rparr>"
  using assms by (auto simp: New_eq split: sum.splits)

lemma New_facade:
  assumes "New env service opts s = ((Some p, None), s')"
  shows "\<exists>l. deref s' p = Some l \<and> deref s p = None
          \<and> getTraceIDFn l = lastWriteWins setsTraceID (Some defaultTraceIDFn) opts
          \<and> level l = lastWriteWins setsLevel InfoLevel opts
          \<and> outputPaths l = lastWriteWins setsOutputPaths [''stdout''] opts
          \<and> config (zapLogger l) =
              \<lparr>cfgLevel = level l, EncodeTime = ISO8601TimeEncoder, DisableStacktrace = True,
               InitialFields = [(''service'', service)], OutputPaths = outputPaths l\<rparr>
          \<and> addCaller (zapLogger l) \<and> zfields (zapLogger l) = []"
proof -
  from New_SomeD [OF assms] obtain z z' where
    b: "Build env (newConfig service (applyOptions opts (defaultLogger z))) True = Inr z'"
    and p: "p = length (loggers s)"
    and s': "s' = s\<lparr>loggers := loggers s @ [(applyOptions opts (defaultLogger z))\<lparr>zapLogger := z'\<rparr>]\<rparr>"
    by blast
  from Build_config [OF b] show ?thesis
    by (simp add: p s' deref_def applyOptions_eq defaultLogger_def newConfig_def
        NewProductionConfig_def)
qed

text \<open>
  C3. The options are applied in the order given, starting from the defaults, and each of
  the three settings ends as the last option that sets it left it, however many options
  set it before. \<open>New\<close> builds the engine from the level and the output paths so resolved
  and, when the engine builds, returns a facade that holds the three resolved values.
  Construction as a whole depends on the options only through them: \<open>New\<close> with any option
  list does what it does with the three resolved options.
\<close>

theorem options_last_write_wins:
  fixes s :: "(('v, 'c) Logger, 'v) State" and z :: "'v ZapLogger"
  shows "applyOptions opts (defaultLogger z) =
     \<lparr>zapLogger = Sugar z,
      getTraceIDFn = lastWriteWins setsTraceID (Some defaultTraceIDFn) opts,
      level = lastWriteWins setsLevel InfoLevel opts,
      outputPaths = lastWriteWins setsOutputPaths [''stdout''] opts\<rparr>
   \<and> New env service opts s =
       New env service
         [WithTraceID (lastWriteWins setsTraceID (Some defaultTraceIDFn) opts),
          WithLevel (lastWriteWins setsLevel InfoLevel opts),
          WithOutputPaths (lastWriteWins setsOutputPaths [''stdout''] opts)] s
   \<and> New env service opts s =
       (case (NewProduction env :: error + 'v ZapLogger) of
          Inl err \<Rightarrow> ((None, Some err), s)
        | Inr z0 \<Rightarrow>
            (case Build env
                    \<lparr>cfgLevel = lastWriteWins setsLevel InfoLevel opts,
                     EncodeTime = ISO8601TimeEncoder, DisableStacktrace = True,
                     InitialFields = [(''service'', service)],
                     OutputPaths = lastWriteWins setsOutputPaths [''stdout''] opts\<rparr> True of
               Inl err \<Rightarrow> ((None, Some err), s)
             | Inr z' \<Rightarrow>
                 ((Some (length (loggers s)), None),
                  s\<lparr>loggers := loggers s @
                     [\<lparr>zapLogger = z',
                       getTraceIDFn = lastWriteWins setsTraceID (Some defaultTraceIDFn) opts,
                       level = lastWriteWins setsLevel InfoLevel opts,
                       outputPaths = lastWriteWins setsOutputPaths [''stdout''] opts\<rparr>]\<rparr>)))
   \<and> (\<forall>p s'. New env service opts s = ((Some p, None), s') \<longrightarrow>
         (\<exists>l. deref s' p = Some l
            \<and> getTraceIDFn l = lastWriteWins setsTraceID (Some defaultTraceIDFn) opts
            \<and> level l = lastWriteWins setsLevel InfoLevel opts
            \<and> outputPaths l = lastWriteWins setsOutputPaths [''stdout''] opts
            \<and> cfgLevel (config (zapLogger l)) = lastWriteWins setsLevel InfoLevel opts
            \<and> OutputPaths (config (zapLogger l)) =
                lastWriteWins setsOutputPaths [''stdout''] opts))"
proof -
  have a: "applyOptions opts (defaultLogger y) =
     \<lparr>zapLogger = Sugar y,
      getTraceIDFn = lastWriteWins setsTraceID (Some defaultTraceIDFn) opts,
      level = lastWriteWins setsLevel InfoLevel opts,
      outputPaths = lastWriteWins setsOutputPaths [''stdout''] opts\<rparr>" for y :: "'v ZapLogger"
    by (simp add: applyOptions_eq defaultLogger_def)
  have h: "applyOptions opts (defaultLogger y) =
          applyOptions
            [WithTraceID (lastWriteWins setsTraceID (Some defaultTraceIDFn) opts),
             WithLevel (lastWriteWins setsLevel InfoLevel opts),
             WithOutputPaths (lastWriteWins setsOutputPaths [''stdout''] opts)]
            (defaultLogger y)" for y :: "'v ZapLogger"
    by (simp add: applyOptions_eq [of opts] defaultLogger_def)
  have b: "New env service opts s =
       New env service
         [WithTraceID (lastWriteWins setsTraceID (Some defaultTraceIDFn) opts),
          WithLevel (lastWriteWins setsLevel InfoLevel opts),
          WithOutputPaths (lastWriteWins setsOutputPaths [''stdout''] opts)] s"
    by (simp add: New_eq h split: sum.splits)
  have c: "New env service opts s =
       (case (NewProduction env :: error + 'v ZapLogger) of
          Inl err \<Rightarrow> ((None, Some err), s)
        | Inr z0 \<Rightarrow>
            (case Build env
                    \<lparr>cfgLevel = lastWriteWins setsLevel InfoLevel opts,
                     EncodeTime = ISO8601TimeEncoder, DisableStacktrace = True,
                     InitialFields = [(''service'', service)],
                     OutputPaths = lastWriteWins setsOutputPaths [''stdout''] opts\<rparr> True of
               Inl err \<Rightarrow> ((None, Some err), s)
             | Inr z' \<Rightarrow>
                 ((Some (length (loggers s)), None),
                  s\<lparr>loggers := loggers s @
                     [\<lparr>zapLogger = z',
                       getTraceIDFn = lastWriteWins setsTraceID (Some defaultTraceIDFn) opts,
                       level = lastWriteWins setsLevel InfoLevel opts,
                       outputPaths = lastWriteWins setsOutputPaths [''stdout''] opts\<rparr>]\<rparr>)))"
    by (simp add: New_eq a newConfig_def NewProductionConfig_def split: sum.splits)
  have d: "\<exists>l. deref s' p = Some l
            \<and> getTraceIDFn l = lastWriteWins setsTraceID (Some defaultTraceIDFn) opts
            \<and> level l = lastWriteWins setsLevel InfoLevel opts
            \<and> outputPaths l = lastWriteWins setsOutputPaths [''stdout''] opts
            \<and> cfgLevel (config (zapLogger l)) = lastWriteWins setsLevel InfoLevel opts
            \<and> OutputPaths (config (zapLogger l)) =
                lastWriteWins setsOutputPaths [''stdout''] opts"
    if "New env service opts s = ((Some p, None), s')" for p s'
    using New_facade [OF that] by auto
  from a [of z] b c d show ?thesis by blast
qed

theorem options_last_write_wins_witness:
  "applyOptions
     [WithLevel ErrorLevel, WithOutputPaths [''stdout''], WithLevel DebugLevel,
      WithTraceID None, WithOutputPaths [''mem://buf'']]
     (defaultLogger (zapLogger plainLogger)) =
   (\<lparr>zapLogger = Sugar (zapLogger plainLogger), getTraceIDFn = None, level = DebugLevel,
     outputPaths = [''mem://buf'']\<rparr> :: (nat, unit) Logger)
   \<and> New exampleEnv ''svc''
       [WithLevel ErrorLevel, WithOutputPaths [''stdout''], WithLevel DebugLevel,
        WithTraceID None, WithOutputPaths [''mem://buf'']] emptyState =
     ((Some 0, None),
      emptyState\<lparr>loggers :=
        [\<lparr>zapLogger =
            \<lparr>config = \<lparr>cfgLevel = DebugLevel, EncodeTime = ISO8601TimeEncoder,
                        DisableStacktrace = True, InitialFields = [(''service'', ''svc'')],
                        OutputPaths = [''mem://buf'']\<rparr>,
             addCaller = True, zfields = []\<rparr>,
          getTraceIDFn = None, level = DebugLevel, outputPaths = [''mem://buf'']\<rparr>]\<rparr>)"
proof -
  note t = options_last_write_wins
    [of "[WithLevel ErrorLevel, WithOutputPaths [''stdout''], WithLevel DebugLevel,
          WithTraceID None, WithOutputPaths [''mem://buf'']]" "zapLogger plainLogger"
        exampleEnv "''svc''" emptyState]
  from t [THEN conjunct1]
  have a: "applyOptions
     [WithLevel ErrorLevel, WithOutputPaths [''stdout''], WithLevel DebugLevel,
      WithTraceID None, WithOutputPaths [''mem://buf'']]
     (defaultLogger (zapLogger plainLogger)) =
   (\<lparr>zapLogger = Sugar (zapLogger plainLogger), getTraceIDFn = None, level = DebugLevel,
     outputPaths = [''mem://buf'']\<rparr> :: (nat, unit) Logger)"
    by (simp add: lastWriteWins_def)
  from t [THEN conjunct2, THEN conjunct2, THEN conjunct1]
  have b: "New exampleEnv ''svc''
       [WithLevel ErrorLevel, WithOutputPaths [''stdout''], WithLevel DebugLevel,
        WithTraceID None, WithOutputPaths [''mem://buf'']] emptyState =
     ((Some 0, None),
      emptyState\<lparr>loggers :=
        [\<lparr>zapLogger =
            \<lparr>config = \<lparr>cfgLevel = DebugLevel, EncodeTime = ISO8601TimeEncoder,
                        DisableStacktrace = True, InitialFields = [(''service'', ''svc'')],
                        OutputPaths = [''mem://buf'']\<rparr>,
             addCaller = True, zfields = []\<rparr>,
          getTraceIDFn = None, level = DebugLevel, outputPaths = [''mem://buf'']\<rparr>]\<rparr>)"
    by (simp add: lastWriteWins_def NewProduction_def Build_def NewProductionConfig_def
        exampleEnv_def emptyState_def)
  from a b show ?thesis by (rule conjI)
qed

text \<open>
  What \<open>New\<close> yields without options, when it succeeds: the facade has level \<open>InfoLevel\<close>
  and output paths \<open>["stdout"]\<close>, its engine is configured with the same, and its
  trace-extraction function is the function that returns the empty string for every
  context, so that no log call adds a \<open>trace_id\<close>.
\<close>

lemma New_defaults:
  assumes "New env service [] s = ((Some p, None), s')"
  shows "\<exists>l. deref s' p = Some l
           \<and> level l = InfoLevel \<and> outputPaths l = [''stdout'']
           \<and> cfgLevel (config (zapLogger l)) = InfoLevel
           \<and> OutputPaths (config (zapLogger l)) = [''stdout'']
           \<and> getTraceIDFn l = Some defaultTraceIDFn
           \<and> defaultTraceIDFn ctx = ''''
           \<and> traceFields l ctx = []"
proof -
  from New_facade [OF assms] obtain l where
    "deref s' p = Some l" "getTraceIDFn l = Some defaultTraceIDFn" "level l = InfoLevel"
    "outputPaths l = [''stdout'']"
    "config (zapLogger l) =
       \<lparr>cfgLevel = level l, EncodeTime = ISO8601TimeEncoder, DisableStacktrace = True,
        InitialFields = [(''service'', service)], OutputPaths = outputPaths l\<rparr>"
    by (auto simp: lastWriteWins_Nil)
  then show ?thesis
    by (simp add: traceFields_def defaultTraceIDFn_def)
qed

lemma New_defaults_example:
  "\<exists>l. deref plainState 0 = Some l
      \<and> level l = InfoLevel \<and> outputPaths l = [''stdout'']
      \<and> cfgLevel (config (zapLogger l)) = InfoLevel
      \<and> OutputPaths (config (zapLogger l)) = [''stdout'']
      \<and> getTraceIDFn l = Some defaultTraceIDFn
      \<and> defaultTraceIDFn () = ''''
      \<and> traceFields l () = []"
  using New_defaults [OF New_plainState, of "()"] .


text \<open>
  C6, as the code has it. After a successful construction the facade's output paths are
  those of its engine, and they are \<open>["stdout"]\<close> when no option sets them and the list
  given by the last option that sets them otherwise; so they are empty exactly when that
  last list is empty.
\<close>

theorem New_output_paths:
  assumes "New env service opts s = ((Some p, None), s')"
  shows "\<exists>l. deref s' p = Some l
           \<and> outputPaths l = lastWriteWins setsOutputPaths [''stdout''] opts
           \<and> OutputPaths (config (zapLogger l)) = outputPaths l
           \<and> (if List.map_filter setsOutputPaths opts = []
               then outputPaths l = [''stdout'']
               else outputPaths l = last (List.map_filter setsOutputPaths opts))"
proof -
  from New_facade [OF assms] obtain l where
    "deref s' p = Some l" "outputPaths l = lastWriteWins setsOutputPaths [''stdout''] opts"
    "config (zapLogger l) =
       \<lparr>cfgLevel = level l, EncodeTime = ISO8601TimeEncoder, DisableStacktrace = True,
        InitialFields = [(''service'', service)], OutputPaths = outputPaths l\<rparr>"
    by auto
  then show ?thesis
    by (simp add: lastWriteWins_alt)
qed

theorem New_output_paths_witness:
  "\<exists>l. deref exampleState 0 = Some l
      \<and> outputPaths l = lastWriteWins setsOutputPaths [''stdout''] exampleOptions
      \<and> OutputPaths (config (zapLogger l)) = outputPaths l
      \<and> outputPaths l = [''mem://buf'']"
  using New_output_paths [OF New_exampleState]
  by (simp add: exampleOptions_def)

theorem New_empty_output_paths:
  "fst (New exampleEnv ''svc'' [WithOutputPaths []] emptyState) = (Some 0, None)
   \<and> map_option outputPaths
       (deref (snd (New exampleEnv ''svc'' [WithOutputPaths []] emptyState)) 0) = Some []"
  by (simp add: New_def NewProduction_def Build_def NewProductionConfig_def exampleEnv_def
      defaultLogger_def newConfig_def Sugar_def alloc_def emptyState_def deref_def)

text \<open>
  C7. \<open>New\<close> returns an error exactly when the engine fails to initialise, in
  \<open>zap.NewProduction\<close> or in \<open>config.Build\<close>, and the error is the engine's. With an error
  it returns the \<open>nil\<close> pointer and leaves the state as it was; without one it returns a
  pointer that was not in use, to a facade.
\<close>

theorem New_error_iff_engine_fails:
  fixes s :: "(('v, 'c) Logger, 'v) State"
  shows "(snd (fst (New env service opts s)) = Some e \<longleftrightarrow>
            (NewProduction env :: error + 'v ZapLogger) = Inl e
            \<or> (\<exists>z :: 'v ZapLogger. NewProduction env = Inr z
                 \<and> Build env (newConfig service (applyOptions opts (defaultLogger z) :: ('v, 'c) Logger))
                      True = (Inl e :: error + 'v ZapLogger)))
       \<and> (snd (fst (New env service opts s)) = None \<longleftrightarrow>
            fst (fst (New env service opts s)) \<noteq> None)
       \<and> (if snd (fst (New env service opts s)) = None
           then \<exists>p l. fst (fst (New env service opts s)) = Some p \<and> deref s p = None
                  \<and> deref (snd (New env service opts s)) p = Some l
           else snd (New env service opts s) = s)"
  by (auto simp: New_eq deref_def split: sum.splits)

theorem New_error_iff_engine_fails_witness:
  "snd (fst (New exampleEnv ''svc'' [WithOutputPaths [''/no/such/dir/app.log'']] emptyState))
     = Some (OpenError [''/no/such/dir/app.log''])
   \<and> fst (fst (New exampleEnv ''svc'' [WithOutputPaths [''/no/such/dir/app.log'']] emptyState))
     = None
   \<and> snd (New exampleEnv ''svc'' [WithOutputPaths [''/no/such/dir/app.log'']] emptyState)
     = emptyState"
proof -
  have b: "\<exists>z :: nat ZapLogger. NewProduction exampleEnv = Inr z
      \<and> Build exampleEnv (newConfig ''svc''
            (applyOptions [WithOutputPaths [''/no/such/dir/app.log'']] (defaultLogger z)
               :: (nat, unit) Logger)) True
          = (Inl (OpenError [''/no/such/dir/app.log'']) :: error + nat ZapLogger)"
    by (simp add: NewProduction_def Build_def NewProductionConfig_def exampleEnv_def
        newConfig_def defaultLogger_def)
  from New_error_iff_engine_fails
    [of exampleEnv "''svc''" "[WithOutputPaths [''/no/such/dir/app.log'']]" emptyState
      "OpenError [''/no/such/dir/app.log'']"] b
  show ?thesis by auto
qed

section \<open>Severity filtering\<close>

lemma New_loggers:
  "loggers (snd (New env service opts s)) = loggers s
   \<or> (\<exists>l. consistent l \<and> loggers (snd (New env service opts s)) = loggers s @ [l])"
  by (auto simp: New_def Let_def alloc_def consistent_def newConfig_def Sugar_def
      dest!: Build_config split: sum.splits)

lemma With_loggers:
  "With p keyVals s = Some (q, s') \<Longrightarrow> deref s p = Some l \<Longrightarrow>
   loggers s' = loggers s @ [\<lparr>zapLogger = zapWith (zapLogger l) keyVals,
      getTraceIDFn = getTraceIDFn l, level = level l, outputPaths = outputPaths l\<rparr>]"
  by (auto simp: With_def Let_def alloc_def)

lemma With_Some_deref: "With p keyVals s = Some r \<Longrightarrow> \<exists>l. deref s p = Some l"
  by (auto simp: With_def split: option.splits)

lemma deref_in_set: "deref s p = Some l \<Longrightarrow> l \<in> set (loggers s)"
  by (auto simp: deref_def split: if_splits)

lemma log_loggers:
  "Info p ctx msg keyVals s = Some s' \<Longrightarrow> loggers s' = loggers s"
  "Error p ctx msg keyVals s = Some s' \<Longrightarrow> loggers s' = loggers s"
  "Debug p ctx msg keyVals s = Some s' \<Longrightarrow> loggers s' = loggers s"
  by (auto simp: Info_def Error_def Debug_def Let_def split: option.splits)

lemma Sync_loggers: "Sync env p s = Some (err, s') \<Longrightarrow> loggers s' = loggers s"
  by (auto simp: Sync_def split_beta split: option.splits)

lemma reachable_consistent:
  "reachable env s \<Longrightarrow> l \<in> set (loggers s) \<Longrightarrow> consistent l"
proof (induction arbitrary: l rule: reachable.induct)
  case reach_init
  then show ?case by simp
next
  case (reach_New s service opts)
  from New_loggers [of env service opts s] reach_New show ?case by auto
next
  case (reach_With s p keyVals q s')
  from With_Some_deref [OF reach_With.hyps(2)] obtain l0 where d: "deref s p = Some l0" ..
  from reach_With.IH [OF deref_in_set [OF d]] have c: "consistent l0" .
  from With_loggers [OF reach_With.hyps(2) d] reach_With.prems reach_With.IH c
  show ?case by (auto simp: consistent_def zapWith_def)
next
  case (reach_Info s p ctx msg keyVals s')
  then show ?case by (simp add: log_loggers)
next
  case (reach_Error s p ctx msg keyVals s')
  then show ?case by (simp add: log_loggers)
next
  case (reach_Debug s p ctx msg keyVals s')
  then show ?case by (simp add: log_loggers)
next
  case (reach_Sync s p err s')
  then show ?case by (simp add: Sync_loggers)
qed

text \<open>
  C5. In every reachable state and for every facade, with \<open>level l\<close> its configured minimum:
  a \<open>Debug\<close>, \<open>Info\<close> or \<open>Error\<close> call whose severity is below \<open>level l\<close> returns the state
  unchanged, so nothing is written to any sink; a call whose severity is at or above
  \<open>level l\<close> appends one record of that severity for each of the facade's output paths, and
  nothing else.
\<close>

theorem severity_filter:
  assumes "reachable env s" and "deref s p = Some l"
  shows "Debug p ctx msg keyVals s =
           Some (if level l \<le> DebugLevel
                 then s\<lparr>sinkOps := sinkOps s @ map (\<lambda>path. Write path
                        (emitted l DebugLevel msg (keyVals @ traceFields l ctx))) (outputPaths l)\<rparr>
                 else s)
       \<and> Info p ctx msg keyVals s =
           Some (if level l \<le> InfoLevel
                 then s\<lparr>sinkOps := sinkOps s @ map (\<lambda>path. Write path
                        (emitted l InfoLevel msg (keyVals @ traceFields l ctx))) (outputPaths l)\<rparr>
                 else s)
       \<and> Error p ctx msg keyVals s =
           Some (if level l \<le> ErrorLevel
                 then s\<lparr>sinkOps := sinkOps s @ map (\<lambda>path. Write path
                        (emitted l ErrorLevel msg (keyVals @ traceFields l ctx))) (outputPaths l)\<rparr>
                 else s)"
proof -
  from reachable_consistent [OF assms(1) deref_in_set [OF assms(2)]]
  have c: "cfgLevel (config (zapLogger l)) = level l"
    "OutputPaths (config (zapLogger l)) = outputPaths l"
    by (simp_all add: consistent_def)
  show ?thesis
    by (simp add: Info_eq [OF assms(2)] Error_eq [OF assms(2)] Debug_eq [OF assms(2)]
        Infow_def Errorw_def Debugw_def logw_def c emitted_def)
qed

lemma reachable_plainState: "reachable exampleEnv plainState"
proof -
  have "reachable exampleEnv emptyState"
    unfolding emptyState_def by (rule reach_init)
  from reach_New [OF this, of "''svc''" "[]"] show ?thesis
    by (simp add: New_plainState)
qed

lemma New_errorState:
  "New exampleEnv ''svc'' [WithLevel ErrorLevel] emptyState = ((Some 0, None), errorState)"
  by (simp add: New_def NewProduction_def Build_def NewProductionConfig_def exampleEnv_def
      defaultLogger_def newConfig_def Sugar_def alloc_def emptyState_def errorState_def
      errorLogger_def)

lemma reachable_examples:
  "reachable exampleEnv exampleState" "reachable exampleEnv errorState"
proof -
  have e: "reachable exampleEnv emptyState"
    unfolding emptyState_def by (rule reach_init)
  from reach_New [OF e, of "''svc''" exampleOptions] show "reachable exampleEnv exampleState"
    by (simp add: New_exampleState)
  from reach_New [OF e, of "''svc''" "[WithLevel ErrorLevel]"] show "reachable exampleEnv errorState"
    by (simp add: New_errorState)
qed

theorem severity_filter_witness:
  "Debug 0 () ''m'' [] plainState = Some plainState
   \<and> Info 0 () ''m'' [] plainState =
       Some (plainState\<lparr>sinkOps := [Write ''stdout''
         \<lparr>entryLevel = InfoLevel, entryMsg = ''m'', entryInitial = [(''service'', ''svc'')],
          entryCaller = True, entryFields = []\<rparr>]\<rparr>)
   \<and> Error 0 () ''m'' [] plainState =
       Some (plainState\<lparr>sinkOps := [Write ''stdout''
         \<lparr>entryLevel = ErrorLevel, entryMsg = ''m'', entryInitial = [(''service'', ''svc'')],
          entryCaller = True, entryFields = []\<rparr>]\<rparr>)
   \<and> Debug 0 () ''m'' [] errorState = Some errorState
   \<and> Info 0 () ''m'' [] errorState = Some errorState
   \<and> Error 0 () ''m'' [] errorState =
       Some (errorState\<lparr>sinkOps := [Write ''stdout''
         \<lparr>entryLevel = ErrorLevel, entryMsg = ''m'', entryInitial = [(''service'', ''svc'')],
          entryCaller = True, entryFields = []\<rparr>]\<rparr>)
   \<and> Debug 0 () ''m'' [] exampleState =
       Some (exampleState\<lparr>sinkOps := [Write ''mem://buf''
         \<lparr>entryLevel = DebugLevel, entryMsg = ''m'', entryInitial = [(''service'', ''svc'')],
          entryCaller = True, entryFields = [Str ''trace_id'', Str ''abc123'']\<rparr>]\<rparr>)"
proof -
  have d: "deref plainState 0 = Some plainLogger" "deref errorState 0 = Some errorLogger"
    "deref exampleState 0 = Some exampleLogger"
    by (simp_all add: deref_def plainState_def errorState_def exampleState_def)
  from severity_filter [OF reachable_plainState d(1), of "()" "''m''" "[]"]
    severity_filter [OF reachable_examples(2) d(2), of "()" "''m''" "[]"]
    severity_filter [OF reachable_examples(1) d(3), of "()" "''m''" "[]"]
  show ?thesis
    by (simp add: plainLogger_def plainState_def errorLogger_def errorState_def
        exampleLogger_def exampleState_def emitted_def traceFields_def
        defaultTraceIDFn_def InfoLevel_def DebugLevel_def ErrorLevel_def)
qed

section \<open>The same facts about the wrapper without options\<close>

lemma log_v1_eq:
  assumes "deref s p = Some l"
  shows "Info_v1 p ctx msg keyVals s =
           Some (s\<lparr>sinkOps := Infow (zapLogger_v1 l) msg (keyVals @ traceFields_v1 l ctx) (sinkOps s)\<rparr>)"
    and "Error_v1 p ctx msg keyVals s =
           Some (s\<lparr>sinkOps := Errorw (zapLogger_v1 l) msg (keyVals @ traceFields_v1 l ctx) (sinkOps s)\<rparr>)"
    and "Debug_v1 p ctx msg keyVals s =
           Some (s\<lparr>sinkOps := Debugw (zapLogger_v1 l) msg (keyVals @ traceFields_v1 l ctx) (sinkOps s)\<rparr>)"
  using assms
  by (simp_all add: Info_v1_def Error_v1_def Debug_v1_def traceFields_v1_def Let_def
      split: option.splits)

text \<open>The trace id is appended after the fields of the call, or nothing is (C1).\<close>

lemma trace_id_appended_v1:
  assumes "deref s p = Some l" and "getTraceID l = Some fn"
  shows "traceFields_v1 l ctx = (if fn ctx = '''' then [] else [Str ''trace_id'', Str (fn ctx)])
       \<and> Info_v1 p ctx msg keyVals s =
           Some (s\<lparr>sinkOps := Infow (zapLogger_v1 l) msg (keyVals @ traceFields_v1 l ctx) (sinkOps s)\<rparr>)
       \<and> Error_v1 p ctx msg keyVals s =
           Some (s\<lparr>sinkOps := Errorw (zapLogger_v1 l) msg (keyVals @ traceFields_v1 l ctx) (sinkOps s)\<rparr>)
       \<and> Debug_v1 p ctx msg keyVals s =
           Some (s\<lparr>sinkOps := Debugw (zapLogger_v1 l) msg (keyVals @ traceFields_v1 l ctx) (sinkOps s)\<rparr>)"
  using assms by (simp add: log_v1_eq traceFields_v1_def)

text \<open>A log call returns normally and leaves every facade as it was (C8, C10).\<close>

lemma log_calls_keep_facade_v1:
  assumes "deref s p = Some l"
  shows "(\<exists>s'. Info_v1 p ctx msg keyVals s = Some s' \<and> loggers s' = loggers s)
       \<and> (\<exists>s'. Error_v1 p ctx msg keyVals s = Some s' \<and> loggers s' = loggers s)
       \<and> (\<exists>s'. Debug_v1 p ctx msg keyVals s = Some s' \<and> loggers s' = loggers s)"
  using assms by (simp add: log_v1_eq)

text \<open>The child of \<open>With\<close> (C2).\<close>

lemma With_child_v1:
  assumes "deref s p = Some l"
  shows "\<exists>q s' c. With_v1 p keyVals s = Some (q, s') \<and> deref s' q = Some c
           \<and> zfields (zapLogger_v1 c) = zfields (zapLogger_v1 l) @ keyVals
           \<and> config (zapLogger_v1 c) = config (zapLogger_v1 l)
           \<and> getTraceID c = getTraceID l
           \<and> q \<noteq> p \<and> deref s q = None \<and> deref s' p = Some l
           \<and> take (length (loggers s)) (loggers s') = loggers s
           \<and> sinkOps s' = sinkOps s"
  using assms
  by (auto simp: With_v1_def Let_def zapWith_def deref_def alloc_def nth_append split: if_splits)

text \<open>\<open>Sync\<close> returns the engine's error (C9).\<close>

lemma Sync_returns_engine_error_v1:
  assumes "deref s p = Some l"
  shows "\<exists>s'. Sync_v1 env p s = Some (fst (zapSync env (zapLogger_v1 l) (sinkOps s)), s')
           \<and> sinkOps s' = snd (zapSync env (zapLogger_v1 l) (sinkOps s))
           \<and> loggers s' = loggers s"
  using assms by (simp add: Sync_v1_def split_beta)

text \<open>
  What \<open>New\<close> hands to the engine, and when it fails (C4, C6, C7): the output paths are
  \<open>["stdout"]\<close> when the call has no path argument and the argument otherwise, empty or not.
\<close>

lemma New_v1_eq:
  "New_v1 env service fn lvl paths s =
     (case Build env (newConfig_v1 service lvl paths) True of
        Inl err \<Rightarrow> ((None, Some err), s)
      | Inr z \<Rightarrow>
          ((Some (length (loggers s)), None),
           s\<lparr>loggers := loggers s @ [\<lparr>zapLogger_v1 = z, getTraceID = fn\<rparr>]\<rparr>))"
  by (cases paths)
    (simp_all add: New_v1_def newConfig_v1_def NewProductionConfig_def Let_def alloc_def
      Sugar_def split: sum.splits)

lemma New_v1_facade:
  assumes "New_v1 env service fn lvl paths s = ((Some p, None), s')"
  shows "\<exists>l. deref s' p = Some l \<and> deref s p = None \<and> getTraceID l = fn
           \<and> config (zapLogger_v1 l) = newConfig_v1 service lvl paths
           \<and> cfgLevel (config (zapLogger_v1 l)) = lvl
           \<and> OutputPaths (config (zapLogger_v1 l)) =
               (case paths of None \<Rightarrow> [''stdout''] | Some ps \<Rightarrow> ps)
           \<and> addCaller (zapLogger_v1 l) \<and> zfields (zapLogger_v1 l) = []"
  using assms
  by (auto simp: New_v1_eq deref_def newConfig_v1_def dest!: Build_config split: sum.splits)

lemma New_v1_error_iff_engine_fails:
  fixes s :: "(('v, 'c) Logger_v1, 'v) State"
  shows "(snd (fst (New_v1 env service fn lvl paths s)) = Some e \<longleftrightarrow>
            Build env (newConfig_v1 service lvl paths) True = (Inl e :: error + 'v ZapLogger))
       \<and> (snd (fst (New_v1 env service fn lvl paths s)) = None \<longleftrightarrow>
            fst (fst (New_v1 env service fn lvl paths s)) \<noteq> None)
       \<and> (snd (fst (New_v1 env service fn lvl paths s)) \<noteq> None \<longrightarrow>
            snd (New_v1 env service fn lvl paths s) = s)"
  by (auto simp: New_v1_eq split: sum.splits)

lemma New_v1_empty_output_paths:
  "fst (New_v1 exampleEnv ''svc'' None InfoLevel (Some []) \<lparr>loggers = [], sinkOps = []\<rparr>)
     = (Some 0, None)"
  by (simp add: New_v1_eq newConfig_v1_def Build_def)

text \<open>
  The engine filters by the level it was built with, and \<open>With\<close> keeps the engine's
  configuration (C5).
\<close>

lemma severity_filter_v1:
  assumes "deref s p = Some l"
  shows "(cfgLevel (config (zapLogger_v1 l)) \<le> DebugLevel \<or> Debug_v1 p ctx msg keyVals s = Some s)
       \<and> (cfgLevel (config (zapLogger_v1 l)) \<le> InfoLevel \<or> Info_v1 p ctx msg keyVals s = Some s)
       \<and> (cfgLevel (config (zapLogger_v1 l)) \<le> ErrorLevel \<or> Error_v1 p ctx msg keyVals s = Some s)"
  using assms
  by (auto simp: log_v1_eq Infow_def Errorw_def Debugw_def logw_def)

section \<open>Appending to the variadic argument\<close>

lemma window_update2:
  "Suc (Suc (k + n)) \<le> length xs \<Longrightarrow>
   take (Suc (Suc n)) (drop k (xs[k + n := a, Suc (k + n) := b])) = take n (drop k xs) @ [a, b]"
  by (rule nth_equalityI) (auto simp: nth_append nth_list_update less_Suc_eq)

lemma window_keep:
  "take n (drop k (xs[k + n := a, Suc (k + n) := b])) = take n (drop k xs)"
  by (rule nth_equalityI) (auto simp: nth_list_update)

text \<open>
  The window that \<open>append\<close> returns holds the elements of the argument followed by the two
  new ones: on sequences, \<open>append(keyVals, a, b)\<close> is \<open>keyVals @ [a, b]\<close>.
\<close>

lemma append2_elems:
  "validSlice mem sl \<Longrightarrow>
   elems (snd (append2 sl a b mem)) (fst (append2 sl a b mem)) = elems mem sl @ [a, b]"
  by (auto simp: append2_def elems_def validSlice_def window_update2 min_def)

lemma append2_valid:
  "validSlice mem sl \<Longrightarrow> validSlice (snd (append2 sl a b mem)) (fst (append2 sl a b mem))"
  by (auto simp: append2_def elems_def validSlice_def)

text \<open>
  The caller's window holds what it held: the sequence the caller passed is not extended,
  whether or not the two values were written behind it.
\<close>

lemma append2_caller:
  "validSlice mem sl \<Longrightarrow> elems (snd (append2 sl a b mem)) sl = elems mem sl"
  by (auto simp: append2_def elems_def validSlice_def window_keep nth_append)

text \<open>
  What does change, when the caller's window has spare capacity, is the backing array
  behind the window.
\<close>

lemma append2_spare_capacity:
  "append2 \<lparr>arr = 0, start = 0, len = 2, cap = 4\<rparr> (10::nat) 11 [[1, 2, 3, 4]] =
     (\<lparr>arr = 0, start = 0, len = 4, cap = 4\<rparr>, [[1, 2, 10, 11]])"
  by (simp add: append2_def)

text \<open>
  So the sequence the engine is handed is the caller's sequence followed by
  \<open>traceFields\<close>, as in the log methods above, and the caller's sequence is as it was.
\<close>

lemma appendTraceID_elems:
  assumes "validSlice mem keyVals"
  shows "elems (snd (appendTraceID (getTraceIDFn l) ctx keyVals mem))
           (fst (appendTraceID (getTraceIDFn l) ctx keyVals mem))
         = elems mem keyVals @ traceFields l ctx
       \<and> elems (snd (appendTraceID (getTraceIDFn l) ctx keyVals mem)) keyVals
         = elems mem keyVals"
  using assms
  by (simp add: appendTraceID_def traceFields_def Let_def append2_elems append2_caller
      split: option.splits)

lemma appendTraceID_memory:
  "snd (appendTraceID (getTraceIDFn l) ctx keyVals mem) = memoryAfter l ctx keyVals mem"
  by (simp add: appendTraceID_def memoryAfter_def traceFields_def append2_def Let_def
      split: option.splits)

lemma log_mem_eq:
  assumes "deref s p = Some l"
  shows "Info_mem p ctx msg keyVals s mem =
           Some (s\<lparr>sinkOps := Infow (zapLogger l) msg
                   (elems (snd (appendTraceID (getTraceIDFn l) ctx keyVals mem))
                          (fst (appendTraceID (getTraceIDFn l) ctx keyVals mem))) (sinkOps s)\<rparr>,
                 snd (appendTraceID (getTraceIDFn l) ctx keyVals mem))"
    and "Error_mem p ctx msg keyVals s mem =
           Some (s\<lparr>sinkOps := Errorw (zapLogger l) msg
                   (elems (snd (appendTraceID (getTraceIDFn l) ctx keyVals mem))
                          (fst (appendTraceID (getTraceIDFn l) ctx keyVals mem))) (sinkOps s)\<rparr>,
                 snd (appendTraceID (getTraceIDFn l) ctx keyVals mem))"
    and "Debug_mem p ctx msg keyVals s mem =
           Some (s\<lparr>sinkOps := Debugw (zapLogger l) msg
                   (elems (snd (appendTraceID (getTraceIDFn l) ctx keyVals mem))
                          (fst (appendTraceID (getTraceIDFn l) ctx keyVals mem))) (sinkOps s)\<rparr>,
                 snd (appendTraceID (getTraceIDFn l) ctx keyVals mem))"
  using assms
  by (simp_all add: Info_mem_def Error_mem_def Debug_mem_def appendTraceID_def Let_def
      split_beta split: option.splits)

lemma memoryAfter_others:
  "i < length mem \<Longrightarrow> i \<noteq> arr keyVals \<Longrightarrow> memoryAfter l ctx keyVals mem ! i = mem ! i"
  by (simp add: memoryAfter_def nth_append)

lemma memoryAfter_no_spare:
  "traceFields l ctx = [] \<or> cap keyVals < len keyVals + 2 \<Longrightarrow>
   take (length mem) (memoryAfter l ctx keyVals mem) = mem"
  by (auto simp: memoryAfter_def)

text \<open>
  C10, as the code has it. A log call on a facade, with the caller's window \<open>keyVals\<close> onto
  the backing arrays \<open>mem\<close>, returns; the list of \<open>Logger\<close> structs is the same after as
  before, so the receiver keeps its engine handle, trace-extraction function, level and
  output paths; the engine is handed what the call on the sequence of the window hands it;
  and the caller's window holds what it held. The backing arrays are \<open>memoryAfter\<close>: every
  array but the caller's is as it was, and all of them are when no trace id is added or the
  window has fewer than two spare slots, the trace id then going to a copy. With two spare
  slots the trace id is written into the caller's array, behind the window.
\<close>

theorem log_calls_frame:
  assumes "deref s p = Some l" and "validSlice mem keyVals"
  shows "(\<exists>s'. Info_mem p ctx msg keyVals s mem = Some (s', memoryAfter l ctx keyVals mem)
            \<and> Info p ctx msg (elems mem keyVals) s = Some s'
            \<and> loggers s' = loggers s \<and> deref s' p = Some l)
       \<and> (\<exists>s'. Error_mem p ctx msg keyVals s mem = Some (s', memoryAfter l ctx keyVals mem)
            \<and> Error p ctx msg (elems mem keyVals) s = Some s'
            \<and> loggers s' = loggers s \<and> deref s' p = Some l)
       \<and> (\<exists>s'. Debug_mem p ctx msg keyVals s mem = Some (s', memoryAfter l ctx keyVals mem)
            \<and> Debug p ctx msg (elems mem keyVals) s = Some s'
            \<and> loggers s' = loggers s \<and> deref s' p = Some l)
       \<and> elems (memoryAfter l ctx keyVals mem) keyVals = elems mem keyVals
       \<and> (\<forall>i < length mem. i \<noteq> arr keyVals \<longrightarrow> memoryAfter l ctx keyVals mem ! i = mem ! i)
       \<and> (traceFields l ctx = [] \<or> cap keyVals < len keyVals + 2 \<longrightarrow>
            take (length mem) (memoryAfter l ctx keyVals mem) = mem)"
proof -
  note e = appendTraceID_elems [OF assms(2), of l ctx]
  have k: "deref (s\<lparr>sinkOps := ops\<rparr>) p = Some l" for ops
    using assms(1) by (auto simp: deref_def split: if_splits)
  have m: "elems (memoryAfter l ctx keyVals mem) keyVals = elems mem keyVals"
    using e by (simp add: appendTraceID_memory)
  show ?thesis
    using e k m
    by (simp add: log_mem_eq [OF assms(1)] Info_eq [OF assms(1)] Error_eq [OF assms(1)]
        Debug_eq [OF assms(1)] appendTraceID_memory memoryAfter_others memoryAfter_no_spare)
qed

theorem log_calls_frame_witness:
  "Info_mem 0 () ''m'' \<lparr>arr = 0, start = 0, len = 2, cap = 2\<rparr> exampleState [[Str ''k'', Val 1]] =
     Some (exampleState\<lparr>sinkOps :=
             [Write ''mem://buf''
                \<lparr>entryLevel = InfoLevel, entryMsg = ''m'',
                 entryInitial = [(''service'', ''svc'')], entryCaller = True,
                 entryFields = [Str ''k'', Val 1, Str ''trace_id'', Str ''abc123'']\<rparr>]\<rparr>,
           [[Str ''k'', Val 1], [Str ''k'', Val 1, Str ''trace_id'', Str ''abc123'']])
   \<and> elems (memoryAfter exampleLogger () \<lparr>arr = 0, start = 0, len = 2, cap = 2\<rparr>
              [[Str ''k'', Val 1]]) \<lparr>arr = 0, start = 0, len = 2, cap = 2\<rparr> = [Str ''k'', Val 1]"
proof -
  have d: "deref exampleState 0 = Some exampleLogger"
    by (simp add: deref_def exampleState_def)
  have v: "validSlice [[Str ''k'', Val (1::nat)]] \<lparr>arr = 0, start = 0, len = 2, cap = 2\<rparr>"
    by (simp add: validSlice_def)
  from log_calls_frame [OF d v, of "()" "''m''"]
  obtain s' where
    i: "Info_mem 0 () ''m'' \<lparr>arr = 0, start = 0, len = 2, cap = 2\<rparr> exampleState
          [[Str ''k'', Val 1]] =
        Some (s', memoryAfter exampleLogger () \<lparr>arr = 0, start = 0, len = 2, cap = 2\<rparr>
                    [[Str ''k'', Val 1]])"
    and j: "Info 0 () ''m'' (elems [[Str ''k'', Val 1]] \<lparr>arr = 0, start = 0, len = 2, cap = 2\<rparr>)
          exampleState = Some s'"
    and e: "elems (memoryAfter exampleLogger () \<lparr>arr = 0, start = 0, len = 2, cap = 2\<rparr>
              [[Str ''k'', Val 1]]) \<lparr>arr = 0, start = 0, len = 2, cap = 2\<rparr>
            = elems [[Str ''k'', Val 1]] \<lparr>arr = 0, start = 0, len = 2, cap = 2\<rparr>"
    by blast
  from j have "s' = exampleState\<lparr>sinkOps :=
             [Write ''mem://buf''
                \<lparr>entryLevel = InfoLevel, entryMsg = ''m'',
                 entryInitial = [(''service'', ''svc'')], entryCaller = True,
                 entryFields = [Str ''k'', Val 1, Str ''trace_id'', Str ''abc123'']\<rparr>]\<rparr>"
    by (auto simp: Info_def deref_def elems_def Infow_def logw_def
        exampleLogger_def exampleState_def InfoLevel_def DebugLevel_def)
  with i e show ?thesis
    by (simp add: memoryAfter_def elems_def traceFields_def exampleLogger_def)
qed

text \<open>
  The caller spreads the first two of four elements; the call overwrites the other two.
\<close>

theorem log_call_overwrites_spare_capacity:
  "Info_mem 0 () ''m'' spareWindow exampleState spareMemory =
     Some (exampleState\<lparr>sinkOps :=
             [Write ''mem://buf''
                \<lparr>entryLevel = InfoLevel, entryMsg = ''m'',
                 entryInitial = [(''service'', ''svc'')], entryCaller = True,
                 entryFields = [Str ''k'', Val 1, Str ''trace_id'', Str ''abc123'']\<rparr>]\<rparr>,
           [[Str ''k'', Val 1, Str ''trace_id'', Str ''abc123'']])
   \<and> [[Str ''k'', Val 1, Str ''trace_id'', Str ''abc123'']] \<noteq> spareMemory"
  by (simp add: Info_mem_def deref_def exampleState_def exampleLogger_def append2_def
      spareWindow_def spareMemory_def elems_def Infow_def logw_def InfoLevel_def DebugLevel_def)


text \<open>The methods of \<open>logger.go\<close> have the same prefix, over \<open>getTraceID\<close>.\<close>

lemma appendTraceID_elems_v1:
  assumes "validSlice mem keyVals"
  shows "elems (snd (appendTraceID (getTraceID l) ctx keyVals mem))
           (fst (appendTraceID (getTraceID l) ctx keyVals mem))
         = elems mem keyVals @ traceFields_v1 l ctx
       \<and> elems (snd (appendTraceID (getTraceID l) ctx keyVals mem)) keyVals
         = elems mem keyVals"
  using assms
  by (simp add: appendTraceID_def traceFields_v1_def Let_def append2_elems append2_caller
      split: option.splits)

end
